theory Spec2Isabelle
  imports Complex_Main
begin

section \<open>JavaScript numbers\<close>

text \<open>
  The subscription handler computes \<^verbatim>\<open>parseFloat(programPrice) * 100\<close>. A JavaScript
  Number is an IEEE 754 binary64 value. A finite one is kept here as sign, significand
  and exponent: \<open>Dbl s m e\<close> stands for \<open>(-1)^s * m * 2^e\<close>, with \<open>m < 2^53\<close>,
  \<open>-1074 \<le> e \<le> 971\<close>, and \<open>2^52 \<le> m\<close> unless \<open>e = -1074\<close> (a subnormal or a zero), so
  that every value has one representation. The sign is \<open>True\<close> for negative.
\<close>

datatype number = NaN | Infinity bool | Dbl bool nat int

fun bit_length :: "nat \<Rightarrow> nat" where
  "bit_length n = (if n = 0 then 0 else Suc (bit_length (n div 2)))"

declare bit_length.simps [simp del]

text \<open>
  Rounding of the non-negative rational \<open>p / d\<close> (\<open>d > 0\<close>) to the nearest binary64 value,
  ties to the even significand, overflow to infinity: the rounding of every arithmetic
  operation and of every decimal literal.
\<close>

definition round_half_even :: "nat \<Rightarrow> nat \<Rightarrow> nat" where
  "round_half_even p d =
     (let q = p div d; r = p mod d
      in if 2 * r < d then q
         else if d < 2 * r then q + 1
         else if even q then q else q + 1)"

definition round_double :: "bool \<Rightarrow> nat \<Rightarrow> nat \<Rightarrow> number" where
  "round_double s p d =
     (if p = 0 then Dbl s 0 (- 1074)
      else
        let k = int (bit_length p) - int (bit_length d);
            ge = (if 0 \<le> k then d * 2 ^ nat k \<le> p else d \<le> p * 2 ^ nat (- k));
            l = (if ge then k else k - 1);
            e = max (l - 52) (- 1074);
            m = (if 0 \<le> e then round_half_even p (d * 2 ^ nat e)
                 else round_half_even (p * 2 ^ nat (- e)) d);
            m' = (if m = 2 ^ 53 then 2 ^ 52 else m);
            e' = (if m = 2 ^ 53 then e + 1 else e)
        in if 971 < e' then Infinity s else Dbl s m' e')"

definition number_of_nat :: "nat \<Rightarrow> number" where
  "number_of_nat n = round_double False n 1"

text \<open>The mathematical value of a finite number.\<close>

fun num_value :: "number \<Rightarrow> rat option" where
  "num_value NaN = None"
| "num_value (Infinity s) = None"
| "num_value (Dbl s m e) =
     Some ((if s then - 1 else 1) * of_nat m * (if 0 \<le> e then 2 ^ nat e else 1 / 2 ^ nat (- e)))"

text \<open>The operator \<^verbatim>\<open>*\<close> on Numbers (Number::multiply).\<close>

fun js_mul :: "number \<Rightarrow> number \<Rightarrow> number" where
  "js_mul NaN y = NaN"
| "js_mul x NaN = NaN"
| "js_mul (Infinity s) (Infinity t) = Infinity (s \<noteq> t)"
| "js_mul (Infinity s) (Dbl t m e) = (if m = 0 then NaN else Infinity (s \<noteq> t))"
| "js_mul (Dbl s m e) (Infinity t) = (if m = 0 then NaN else Infinity (s \<noteq> t))"
| "js_mul (Dbl s m e) (Dbl t n f) =
     (if 0 \<le> e + f then round_double (s \<noteq> t) (m * n * 2 ^ nat (e + f)) 1
      else round_double (s \<noteq> t) (m * n) (2 ^ nat (- (e + f))))"

section \<open>parseFloat\<close>

text \<open>
  \<^verbatim>\<open>parseFloat(string)\<close> drops leading white space, takes the longest prefix that is a
  \<open>StrDecimalLiteral\<close> (an optional sign, then \<^verbatim>\<open>Infinity\<close> or decimal digits with an
  optional fraction and an optional exponent) and returns the Number nearest to its
  value; with no such prefix it returns \<open>NaN\<close>. A string is a list of characters, each
  a code unit below 256; the white space among them is TAB, LF, VT, FF, CR, SP and the
  no-break space U+00A0 (the members of the language's \<open>WhiteSpace\<close> and
  \<open>LineTerminator\<close> in that range).
\<close>

definition is_white_space :: "char \<Rightarrow> bool" where
  "is_white_space c =
     (c \<in> set [CHR 0x09, CHR 0x0A, CHR 0x0B, CHR 0x0C, CHR 0x0D, CHR '' '', CHR 0xA0])"

definition decimal_digits :: "(char \<times> nat) list" where
  "decimal_digits =
     [(CHR ''0'', 0), (CHR ''1'', 1), (CHR ''2'', 2), (CHR ''3'', 3), (CHR ''4'', 4),
      (CHR ''5'', 5), (CHR ''6'', 6), (CHR ''7'', 7), (CHR ''8'', 8), (CHR ''9'', 9)]"

definition digit_value :: "char \<Rightarrow> nat option" where
  "digit_value c = map_of decimal_digits c"

definition is_digit :: "char \<Rightarrow> bool" where
  "is_digit c = (digit_value c \<noteq> None)"

text \<open>The value of a run of decimal digits, most significant first.\<close>

fun digits_value :: "nat \<Rightarrow> string \<Rightarrow> nat" where
  "digits_value acc [] = acc"
| "digits_value acc (c # cs) =
     digits_value (10 * acc + (case digit_value c of Some v \<Rightarrow> v | None \<Rightarrow> 0)) cs"

text \<open>
  The exponent part \<^verbatim>\<open>e\<close> or \<^verbatim>\<open>E\<close>, an optional sign, one digit at least. It belongs to
  the prefix only when the digit is there; otherwise the literal ends before it.
\<close>

definition exponent_part :: "string \<Rightarrow> int" where
  "exponent_part cs =
     (case cs of
        [] \<Rightarrow> 0
      | c # r \<Rightarrow>
          if c = CHR ''e'' \<or> c = CHR ''E'' then
            (let neg = (r \<noteq> [] \<and> hd r = CHR ''-'');
                 r' = (if r \<noteq> [] \<and> (hd r = CHR ''-'' \<or> hd r = CHR ''+'') then tl r else r);
                 ds = takeWhile is_digit r'
             in if ds = [] then 0
                else if neg then - int (digits_value 0 ds) else int (digits_value 0 ds))
          else 0)"

definition unsigned_decimal :: "bool \<Rightarrow> string \<Rightarrow> number" where
  "unsigned_decimal s cs =
     (if take 8 cs = ''Infinity'' then Infinity s
      else
        let ip = takeWhile is_digit cs;
            r = dropWhile is_digit cs;
            dot = (r \<noteq> [] \<and> hd r = CHR ''.'');
            fp = (if dot then takeWhile is_digit (tl r) else []);
            r' = (if dot then dropWhile is_digit (tl r) else r)
        in if ip = [] \<and> fp = [] then NaN
           else
             let n = digits_value 0 (ip @ fp);
                 x = exponent_part r' - int (length fp)
             in if 0 \<le> x then round_double s (n * 10 ^ nat x) 1
                else round_double s n (10 ^ nat (- x)))"

definition parseFloat_string :: "string \<Rightarrow> number" where
  "parseFloat_string str =
     (let t = dropWhile is_white_space str
      in case t of
           [] \<Rightarrow> NaN
         | c # r \<Rightarrow>
             if c = CHR ''-'' then unsigned_decimal True r
             else if c = CHR ''+'' then unsigned_decimal False r
             else unsigned_decimal False t)"

section \<open>JavaScript values\<close>

text \<open>
  The values that travel through the handlers: what the JSON body parser produces, what
  the handlers build as arguments of the processor's calls, what the processor returns.
  An object is the list of its own properties, earliest binding first. \<open>JBuiltin\<close>
  names an intrinsic of the realm (a function of \<^verbatim>\<open>Object.prototype\<close>, say), which a
  property read on a plain object can reach through the prototype chain.
\<close>

datatype jsval =
    JUndefined
  | JNull
  | JBool bool
  | JNum number
  | JStr string
  | JArr "jsval list"
  | JObj "(string \<times> jsval) list"
  | JBuiltin string

type_synonym js_object = "(string \<times> jsval) list"

text \<open>The properties every plain object inherits from \<^verbatim>\<open>Object.prototype\<close>.\<close>

definition Object_prototype :: "string \<Rightarrow> jsval" where
  "Object_prototype k =
     (if k = ''constructor'' then JBuiltin ''Object''
      else if k = ''__proto__'' then JBuiltin ''Object.prototype''
      else if k \<in> set [''__defineGetter__'', ''__defineSetter__'', ''hasOwnProperty'',
                ''__lookupGetter__'', ''__lookupSetter__'', ''isPrototypeOf'',
                ''propertyIsEnumerable'', ''toString'', ''valueOf'', ''toLocaleString'']
      then JBuiltin (''Object.prototype.'' @ k)
      else JUndefined)"

text \<open>\<^verbatim>\<open>o[k]\<close> on a plain object: the own property, else the inherited one, else undefined.\<close>

definition property :: "js_object \<Rightarrow> string \<Rightarrow> jsval" where
  "property ps k = (case map_of ps k of Some v \<Rightarrow> v | None \<Rightarrow> Object_prototype k)"

text \<open>
  \<^verbatim>\<open>v.k\<close> on a value that is neither undefined nor null. On a primitive, an array or
  an intrinsic the result is undefined for every key that the value's prototype chain
  does not define; the handlers read from such values only the keys
  \<^verbatim>\<open>programName\<close>, \<^verbatim>\<open>programPrice\<close>, \<^verbatim>\<open>email\<close>, \<^verbatim>\<open>name\<close>, \<^verbatim>\<open>payment_intent\<close> and
  \<^verbatim>\<open>client_secret\<close>, which no prototype defines.
\<close>

fun read :: "jsval \<Rightarrow> string \<Rightarrow> jsval" where
  "read (JObj ps) k = property ps k"
| "read v k = JUndefined"

fun nullish :: "jsval \<Rightarrow> bool" where
  "nullish JUndefined = True"
| "nullish JNull = True"
| "nullish v = False"

text \<open>
  A thrown error, as far as the handlers look at it: \<^verbatim>\<open>error.message\<close> (a string, by
  the Error constructor) and \<^verbatim>\<open>error.type\<close> (the processor's errors carry one, the
  language's own errors do not).
\<close>

record js_error =
  err_message :: string
  err_type :: jsval

fun type_name :: "jsval \<Rightarrow> string" where
  "type_name JNull = ''null''"
| "type_name v = ''undefined''"

text \<open>The TypeError of a property read on undefined or null (the message is V8's).\<close>

definition TypeError_read :: "jsval \<Rightarrow> string \<Rightarrow> js_error" where
  "TypeError_read v k =
     \<lparr>err_message = ''Cannot read properties of '' @ type_name v @ '' (reading '' @
        [CHR 0x27] @ k @ [CHR 0x27] @ '')'',
      err_type = JUndefined\<rparr>"

definition TypeError_destructure :: "jsval \<Rightarrow> string \<Rightarrow> string \<Rightarrow> js_error" where
  "TypeError_destructure v k src =
     \<lparr>err_message = ''Cannot destructure property '' @ [CHR 0x27] @ k @ [CHR 0x27] @
        '' of '' @ [CHR 0x27] @ src @ [CHR 0x27] @ '' as it is '' @ type_name v @ ''.'',
      err_type = JUndefined\<rparr>"

definition Get :: "jsval \<Rightarrow> string \<Rightarrow> js_error + jsval" where
  "Get v k = (if nullish v then Inl (TypeError_read v k) else Inr (read v k))"

definition destructure :: "jsval \<Rightarrow> string \<Rightarrow> string \<Rightarrow> js_error + jsval" where
  "destructure v k src =
     (if nullish v then Inl (TypeError_destructure v k src) else Inr (read v k))"

text \<open>
  \<^verbatim>\<open>parseFloat\<close> converts its argument to a string first (\<open>ToString\<close>). An object is
  printed by its \<^verbatim>\<open>toString\<close> method. A plain object inherits one, which prints
  \<^verbatim>\<open>[object Object]\<close>; an object with an own property \<^verbatim>\<open>toString\<close> hides it, and since
  no value parsed from JSON is a function, such an object cannot be printed: the conversion
  throws a TypeError (the message is V8's). An array prints its elements, undefined and
  null as the empty string, joined by commas, and throws when one of them does.
\<close>

fun unprintable :: "jsval \<Rightarrow> bool" where
  "unprintable (JObj ps) = (map_of ps ''toString'' \<noteq> None)"
| "unprintable (JArr xs) = list_ex unprintable xs"
| "unprintable v = False"

definition TypeError_primitive :: js_error where
  "TypeError_primitive =
     \<lparr>err_message = ''Cannot convert object to primitive value'', err_type = JUndefined\<rparr>"

text \<open>
  The Number read from the printed form of a value that can be printed. For a Number
  the printed form is the shortest decimal that reads back as the same Number (and
  \<^verbatim>\<open>-0\<close> prints as \<^verbatim>\<open>0\<close>); of an array only the first element can contribute a numeric
  prefix, since a comma follows it; \<^verbatim>\<open>undefined\<close>, \<^verbatim>\<open>null\<close>, \<^verbatim>\<open>true\<close>, \<^verbatim>\<open>false\<close>,
  \<^verbatim>\<open>[object Object]\<close> and a function's source text have none.
\<close>

fun parseFloat_printed :: "jsval \<Rightarrow> number" where
  "parseFloat_printed (JStr s) = parseFloat_string s"
| "parseFloat_printed (JNum (Dbl s m e)) = (if m = 0 then Dbl False 0 (- 1074) else Dbl s m e)"
| "parseFloat_printed (JNum n) = n"
| "parseFloat_printed (JArr (x # xs)) = parseFloat_printed x"
| "parseFloat_printed v = NaN"

definition parseFloat :: "jsval \<Rightarrow> js_error + number" where
  "parseFloat v = (if unprintable v then Inl TypeError_primitive else Inr (parseFloat_printed v))"

section \<open>The payment processor and the module's scope\<close>

text \<open>
  The processor is an external service. Its three calls used by the server take an
  argument object and either resolve to an object or reject with an error; what the
  service does with a call is a parameter of the model, a function of the call and of
  the service's own state \<open>'p\<close>. Every call is taken to settle: the handler sets no
  timeout, and a call that never settles leaves the request without a response.
\<close>

datatype stripe_call =
    customers_create jsval
  | prices_create jsval
  | subscriptions_create jsval

type_synonym 'p processor = "stripe_call \<Rightarrow> 'p \<Rightarrow> (js_error + js_object) \<times> 'p"

text \<open>
  A verified webhook event, with the shape the processor documents for it: a type tag
  (\<^verbatim>\<open>event.type\<close>, a string) and the object the event is about
  (\<^verbatim>\<open>event.data.object\<close>, an object). The signature check returns events signed by
  the processor only, so the reads of \<^verbatim>\<open>event.data.object\<close> and of its \<^verbatim>\<open>id\<close> in the
  handler find an object.
\<close>

record stripe_event =
  ev_type :: string
  ev_data_object :: js_object

text \<open>
  A request as it arrives: the URL, the headers (names in lower case), the bytes of the
  body, and the clock's reading, in ISO format, when the logging middleware runs.
\<close>

record http_request =
  url :: string
  time :: string
  http_headers :: "(string \<times> string) list"
  http_body :: string

text \<open>
  What the handlers and the middleware find in the scope of the module: the processor's
  client, its signature check \<^verbatim>\<open>stripe.webhooks.constructEvent\<close> (payload, signature
  header, secret), the environment's webhook secret, the module's directory, the helper
  function declared at top level, and the JSON body parser \<^verbatim>\<open>express.json()\<close>. The parser
  leaves a request alone (\<open>None\<close>) when it has no body or its content type is not
  \<^verbatim>\<open>application/json\<close>; otherwise it reads the body and either fails (malformed JSON, an
  unsupported charset, a body too large) or yields the value parsed.
\<close>

record ('p, 'b) module_scope =
  express_json :: "http_request \<Rightarrow> (js_error + jsval) option"
  stripe :: "'p processor"
  constructEvent :: "'b \<Rightarrow> jsval \<Rightarrow> jsval \<Rightarrow> js_error + stripe_event"
  STRIPE_WEBHOOK_SECRET :: jsval
  dirname :: string
  getPriceIdForProgram_binding :: "string \<Rightarrow> jsval"

text \<open>The effects of one request: the processor's state, the calls made with their
  outcomes, and the lines written to the console.\<close>

datatype log_arg = Val jsval | Err js_error

datatype console_call = console_log "log_arg list" | console_error "log_arg list"

record 'p run =
  proc :: 'p
  calls :: "(stripe_call \<times> (js_error + js_object)) list"
  console :: "console_call list"

definition start :: "'p \<Rightarrow> 'p run" where
  "start p = \<lparr>proc = p, calls = [], console = []\<rparr>"

definition await_stripe ::
  "'p processor \<Rightarrow> stripe_call \<Rightarrow> 'p run \<Rightarrow> (js_error + js_object) \<times> 'p run" where
  "await_stripe api c r =
     (case api c (proc r) of
        (res, p') \<Rightarrow> (res, r\<lparr>proc := p', calls := calls r @ [(c, res)]\<rparr>))"

definition log :: "console_call \<Rightarrow> 'p run \<Rightarrow> 'p run" where
  "log l r = r\<lparr>console := console r @ [l]\<rparr>"

text \<open>The response a handler sends: \<^verbatim>\<open>res.status(n).json(v)\<close> (the value is the one
  handed to \<^verbatim>\<open>res.json\<close>), \<^verbatim>\<open>res.status(n).send(text)\<close>, or
  \<^verbatim>\<open>res.sendFile(path.join(...))\<close> with the segments joined.\<close>

datatype response = Json nat jsval | Send nat string | SendFile "string list"

section \<open>Static pages\<close>

definition get_root :: "('p, 'b) module_scope \<Rightarrow> response" where
  "get_root m = SendFile [dirname m, ''public'', ''index.html'']"

definition get_page :: "('p, 'b) module_scope \<Rightarrow> string \<Rightarrow> response" where
  "get_page m page = SendFile [dirname m, ''public'', page]"

section \<open>POST /create-payment-intent\<close>

definition customer_params :: "jsval \<Rightarrow> jsval \<Rightarrow> jsval" where
  "customer_params body programName =
     JObj [(''email'', read body ''email''),
           (''name'', read body ''name''),
           (''metadata'', JObj [(''programName'', programName)])]"

text \<open>The argument of \<^verbatim>\<open>stripe.prices.create\<close>, given the value of
  \<^verbatim>\<open>parseFloat(programPrice) * 100\<close>.\<close>

definition price_params :: "jsval \<Rightarrow> number \<Rightarrow> jsval" where
  "price_params programName unit_amount =
     JObj [(''unit_amount'', JNum unit_amount),
           (''currency'', JStr ''usd''),
           (''recurring'', JObj [(''interval'', JStr ''month'')]),
           (''product_data'', JObj [(''name'', programName)])]"

definition subscription_params :: "js_object \<Rightarrow> js_object \<Rightarrow> jsval" where
  "subscription_params customer price =
     JObj [(''customer'', property customer ''id''),
           (''items'', JArr [JObj [(''price'', property price ''id'')]]),
           (''payment_behavior'', JStr ''default_incomplete''),
           (''payment_settings'', JObj [(''save_default_payment_method'', JStr ''on_subscription'')]),
           (''expand'', JArr [JStr ''latest_invoice.payment_intent''])]"

text \<open>
  The body of the \<^verbatim>\<open>try\<close> block: \<open>Inl\<close> is the error thrown out of it, \<open>Inr\<close> the
  response sent. The destructuring of \<^verbatim>\<open>req.body\<close> throws when the body is undefined or
  null; after it the reads of \<^verbatim>\<open>req.body.email\<close> and \<^verbatim>\<open>req.body.name\<close> cannot. The
  argument of the price call is evaluated after the customer call, and
  \<^verbatim>\<open>parseFloat(programPrice)\<close> in it throws when the price cannot be printed.
\<close>

definition create_payment_intent_try ::
  "('p, 'b) module_scope \<Rightarrow> jsval \<Rightarrow> 'p run \<Rightarrow> (js_error + response) \<times> 'p run" where
  "create_payment_intent_try m body r0 =
     (let r1 = log (console_log [Val (JStr ''Received payment request:''), Val body]) r0
      in case destructure body ''programName'' ''req.body'' of
           Inl e \<Rightarrow> (Inl e, r1)
         | Inr programName \<Rightarrow>
     (let programPrice = read body ''programPrice''
      in case await_stripe (stripe m) (customers_create (customer_params body programName)) r1 of
           (Inl e, r2) \<Rightarrow> (Inl e, r2)
         | (Inr customer, r2) \<Rightarrow>
     (let r3 = log (console_log [Val (JStr ''Customer created:''), Val (property customer ''id'')]) r2
      in case parseFloat programPrice of
           Inl e \<Rightarrow> (Inl e, r3)
         | Inr n \<Rightarrow>
     (case await_stripe (stripe m)
             (prices_create (price_params programName (js_mul n (number_of_nat 100)))) r3 of
           (Inl e, r4) \<Rightarrow> (Inl e, r4)
         | (Inr price, r4) \<Rightarrow>
     (let r5 = log (console_log [Val (JStr ''Price created:''), Val (property price ''id'')]) r4
      in case await_stripe (stripe m) (subscriptions_create (subscription_params customer price)) r5 of
           (Inl e, r6) \<Rightarrow> (Inl e, r6)
         | (Inr subscription, r6) \<Rightarrow>
     (let r7 = log (console_log [Val (JStr ''Subscription created:''),
                                 Val (property subscription ''id'')]) r6
      in case Get (property subscription ''latest_invoice'') ''payment_intent'' of
           Inl e \<Rightarrow> (Inl e, r7)
         | Inr payment_intent \<Rightarrow>
     (case Get payment_intent ''client_secret'' of
           Inl e \<Rightarrow> (Inl e, r7)
         | Inr client_secret \<Rightarrow>
             (Inr (Json 200 (JObj [(''subscriptionId'', property subscription ''id''),
                                   (''clientSecret'', client_secret)])), r7))))))))"

text \<open>The \<^verbatim>\<open>catch\<close> block answers every error thrown out of the \<^verbatim>\<open>try\<close> block.\<close>

definition error_response :: "js_error \<Rightarrow> response" where
  "error_response error =
     Json 500 (JObj [(''error'', JObj [(''message'', JStr (err_message error)),
                                       (''type'', err_type error)])])"

definition create_payment_intent ::
  "('p, 'b) module_scope \<Rightarrow> jsval \<Rightarrow> 'p \<Rightarrow> response \<times> 'p run" where
  "create_payment_intent m body p =
     (case create_payment_intent_try m body (start p) of
        (Inr res, r) \<Rightarrow> (res, r)
      | (Inl error, r) \<Rightarrow>
          (error_response error,
           log (console_error [Val (JStr ''Error in payment intent creation:''), Err error]) r))"

section \<open>POST /webhook\<close>

record 'b webhook_request =
  headers :: "(string \<times> string) list"
  payload :: 'b

definition header :: "'b webhook_request \<Rightarrow> string \<Rightarrow> jsval" where
  "header req k = (case map_of (headers req) k of Some v \<Rightarrow> JStr v | None \<Rightarrow> JUndefined)"

text \<open>The \<^verbatim>\<open>switch\<close> on the event's type: each branch writes one line and nothing else.\<close>

definition dispatch :: "stripe_event \<Rightarrow> 'p run \<Rightarrow> 'p run" where
  "dispatch event r =
     (if ev_type event = ''customer.subscription.created'' then
        log (console_log [Val (JStr ''New subscription created:''),
                          Val (property (ev_data_object event) ''id'')]) r
      else if ev_type event = ''invoice.payment_succeeded'' then
        log (console_log [Val (JStr ''Payment succeeded for invoice:''),
                          Val (property (ev_data_object event) ''id'')]) r
      else if ev_type event = ''payment_intent.succeeded'' then
        log (console_log [Val (JStr ''Payment succeeded:''),
                          Val (property (ev_data_object event) ''id'')]) r
      else
        log (console_log [Val (JStr (''Unhandled event type '' @ ev_type event))]) r)"

definition webhook ::
  "('p, 'b) module_scope \<Rightarrow> 'b webhook_request \<Rightarrow> 'p \<Rightarrow> response \<times> 'p run" where
  "webhook m req p =
     (let sig = header req ''stripe-signature''
      in case constructEvent m (payload req) sig (STRIPE_WEBHOOK_SECRET m) of
           Inl err \<Rightarrow>
             (Send 400 (''Webhook Error: '' @ err_message err),
              log (console_error [Val (JStr ''Webhook Error:''), Val (JStr (err_message err))])
                (start p))
         | Inr event \<Rightarrow>
             (Json 200 (JObj [(''received'', JBool True)]), dispatch event (start p)))"

section \<open>The middleware in front of the webhook handler\<close>

text \<open>
  \<^verbatim>\<open>req.body\<close> when the webhook handler runs: the bytes of the body, which is what the raw
  parser \<^verbatim>\<open>express.raw\<close> stores and what the signature check is computed over, or a
  JavaScript value, which is what the JSON parser stores.
\<close>

datatype req_body = Raw string | Parsed jsval

text \<open>
  The raw parser mounted on the route, given the flag \<^verbatim>\<open>req._body\<close> and the body found.
  It does nothing when the body is marked as parsed. Otherwise it applies the test of the
  JSON parser (a body is present, and its type is \<^verbatim>\<open>application/json\<close>, the JSON
  parser's default and the option given to \<^verbatim>\<open>express.raw\<close>) and stores the bytes when
  the test passes.
\<close>

definition express_raw ::
  "('p, 'b) module_scope \<Rightarrow> http_request \<Rightarrow> bool \<Rightarrow> req_body \<Rightarrow> req_body" where
  "express_raw m req parsed body =
     (if parsed then body
      else if express_json m req = None then body
      else Raw (http_body req))"

text \<open>The logging middleware writes one line, and the error-handling middleware answers
  an error passed on by a middleware.\<close>

definition logged :: "http_request \<Rightarrow> console_call" where
  "logged req = console_log [Val (JStr (time req @ '' - POST '' @ url req))]"

definition error_middleware :: "js_error \<Rightarrow> 'p \<Rightarrow> response \<times> 'p run" where
  "error_middleware err p =
     (Json 500 (JObj [(''error'', JObj [(''message'', JStr ''Internal server error''),
                                       (''details'', JStr (err_message err))])]),
      log (console_error [Val (JStr ''Server error:''), Err err]) (start p))"

text \<open>
  A POST to \<^verbatim>\<open>/webhook\<close> passes, in the order of registration, the JSON parser mounted
  for every route, the logging middleware, the raw parser of the route and the handler.
  When the JSON parser leaves the request alone, \<^verbatim>\<open>req.body\<close> is the empty object.
\<close>

definition webhook_route ::
  "('p, req_body) module_scope \<Rightarrow> http_request \<Rightarrow> bool \<Rightarrow> req_body \<Rightarrow> 'p \<Rightarrow>
     response \<times> 'p run" where
  "webhook_route m req parsed body p =
     (case webhook m \<lparr>headers = http_headers req,
                       payload = express_raw m req parsed body\<rparr> p of
        (res, r) \<Rightarrow> (res, r\<lparr>console := logged req # console r\<rparr>))"

definition post_webhook ::
  "('p, req_body) module_scope \<Rightarrow> http_request \<Rightarrow> 'p \<Rightarrow> response \<times> 'p run" where
  "post_webhook m req p =
     (case express_json m req of
        None \<Rightarrow> webhook_route m req False (Parsed (JObj [])) p
      | Some (Inl err) \<Rightarrow> error_middleware err p
      | Some (Inr v) \<Rightarrow> webhook_route m req True (Parsed v) p)"

section \<open>The price lookup helper\<close>

definition priceIds :: js_object where
  "priceIds = [(''strength'', JStr ''price_id_for_strength''),
               (''complete'', JStr ''price_id_for_complete''),
               (''group'', JStr ''price_id_for_group'')]"

definition getPriceIdForProgram :: "string \<Rightarrow> jsval" where
  "getPriceIdForProgram programName = property priceIds programName"

section \<open>An example environment\<close>

text \<open>
  One concrete processor, used to exhibit runs of the handlers. It refuses a customer
  whose email is not a string with an \<^verbatim>\<open>@\<close>, refuses a price whose amount is not a finite
  non-negative number, and answers a subscription request with a given subscription
  object. Its state counts the records it has created.
\<close>

fun is_email :: "jsval \<Rightarrow> bool" where
  "is_email (JStr e) = (CHR ''@'' \<in> set e)"
| "is_email v = False"

fun is_amount :: "jsval \<Rightarrow> bool" where
  "is_amount (JNum (Dbl s m e)) = (\<not> s)"
| "is_amount v = False"

definition invalid_request :: "string \<Rightarrow> js_error" where
  "invalid_request msg = \<lparr>err_message = msg, err_type = JStr ''StripeInvalidRequestError''\<rparr>"

fun example_processor :: "js_object \<Rightarrow> nat processor" where
  "example_processor subscription (customers_create a) p =
     (if is_email (read a ''email'') then (Inr [(''id'', JStr ''cus_1'')], Suc p)
      else (Inl (invalid_request ''Invalid email address''), p))"
| "example_processor subscription (prices_create a) p =
     (if is_amount (read a ''unit_amount'') then (Inr [(''id'', JStr ''price_1'')], Suc p)
      else (Inl (invalid_request ''Invalid integer''), p))"
| "example_processor subscription (subscriptions_create a) p = (Inr subscription, Suc p)"

text \<open>
  One event as the processor sends it: the JSON text of the body, the value that text
  parses to, the event it describes, and the signature header the processor computes over
  the text with the endpoint's secret.
\<close>

definition quoted :: "string \<Rightarrow> string" where
  "quoted s = CHR 0x22 # s @ [CHR 0x22]"

definition signed_payload :: string where
  "signed_payload =
     ''{'' @ quoted ''type'' @ '':'' @ quoted ''payment_intent.succeeded'' @ '','' @
     quoted ''data'' @ '':{'' @ quoted ''object'' @ '':{'' @ quoted ''id'' @ '':'' @
     quoted ''pi_1'' @ ''}}}''"

definition signed_value :: jsval where
  "signed_value =
     JObj [(''type'', JStr ''payment_intent.succeeded''),
           (''data'', JObj [(''object'', JObj [(''id'', JStr ''pi_1'')])])]"

definition signed_event :: stripe_event where
  "signed_event = \<lparr>ev_type = ''payment_intent.succeeded'', ev_data_object = [(''id'', JStr ''pi_1'')]\<rparr>"

definition signed_header :: string where
  "signed_header = ''t=1,v1=5257a869''"

text \<open>
  The example's JSON parser takes requests of type \<^verbatim>\<open>application/json\<close>, parses the one
  text above and refuses every other text. The example's signature check wants a
  signature header, refuses a payload that is not the raw body, and verifies the one text
  above against its signature and the endpoint's secret.
\<close>

definition example_express_json :: "http_request \<Rightarrow> (js_error + jsval) option" where
  "example_express_json req =
     (if map_of (http_headers req) ''content-type'' = Some ''application/json'' then
        (if http_body req = signed_payload then Some (Inr signed_value)
         else Some (Inl \<lparr>err_message = ''Unexpected token in JSON'',
                          err_type = JStr ''entity.parse.failed''\<rparr>))
      else None)"

definition verification_error :: "string \<Rightarrow> js_error" where
  "verification_error msg =
     \<lparr>err_message = msg, err_type = JStr ''StripeSignatureVerificationError''\<rparr>"

fun example_constructEvent :: "req_body \<Rightarrow> jsval \<Rightarrow> jsval \<Rightarrow> js_error + stripe_event" where
  "example_constructEvent (Raw bytes) (JStr h) secret =
     (if bytes = signed_payload \<and> h = signed_header \<and> secret = JStr ''whsec_1''
      then Inr signed_event
      else Inl (verification_error
             ''No signatures found matching the expected signature for payload.''))"
| "example_constructEvent (Parsed v) (JStr h) secret =
     Inl (verification_error
       ''Webhook payload must be provided as a string or a Buffer instance.'')"
| "example_constructEvent body sig secret =
     Inl (verification_error ''No stripe-signature header value was provided.'')"

definition example_scope :: "js_object \<Rightarrow> (nat, req_body) module_scope" where
  "example_scope subscription =
     \<lparr>express_json = example_express_json,
      stripe = example_processor subscription,
      constructEvent = example_constructEvent,
      STRIPE_WEBHOOK_SECRET = JStr ''whsec_1'',
      dirname = ''/app'',
      getPriceIdForProgram_binding = getPriceIdForProgram\<rparr>"

definition signed_request :: http_request where
  "signed_request =
     \<lparr>url = ''/webhook'', time = ''2024-05-01T12:00:00.000Z'',
      http_headers = [(''content-type'', ''application/json''),
                      (''stripe-signature'', signed_header)],
      http_body = signed_payload\<rparr>"

definition example_body :: "string \<Rightarrow> string \<Rightarrow> jsval" where
  "example_body email price =
     JObj [(''programName'', JStr ''strength''), (''programPrice'', JStr price),
           (''email'', JStr email), (''name'', JStr ''Harley'')]"

text \<open>A subscription whose first invoice awaits payment, and one whose first invoice
  has nothing to pay and therefore no payment intent.\<close>

definition open_subscription :: js_object where
  "open_subscription =
     [(''id'', JStr ''sub_1''),
      (''latest_invoice'',
       JObj [(''id'', JStr ''in_1''),
             (''payment_intent'',
              JObj [(''id'', JStr ''pi_1''), (''client_secret'', JStr ''pi_1_secret_9'')])])]"

definition free_subscription :: js_object where
  "free_subscription =
     [(''id'', JStr ''sub_2''),
      (''latest_invoice'', JObj [(''id'', JStr ''in_2''), (''payment_intent'', JNull)])]"

section \<open>Evaluation of numbers\<close>

lemmas number_eval =
  parseFloat_string_def unsigned_decimal_def exponent_part_def is_white_space_def
  is_digit_def digit_value_def decimal_digits_def round_double_def round_half_even_def bit_length.simps number_of_nat_def Let_def

lemma hundred: "number_of_nat 100 = Dbl False 7036874417766400 (- 46)"
  by (simp add: number_eval)

lemma parseFloat_29_99: "parseFloat_string ''29.99'' = Dbl False 8441434551552573 (- 48)"
  by (simp add: number_eval)

lemma cents_29_99:
  "js_mul (parseFloat_string ''29.99'') (number_of_nat 100) = Dbl False 6594870743400448 (- 41)"
  unfolding parseFloat_29_99 hundred by (simp add: number_eval)

lemma value_2999: "num_value (Dbl False 6594870743400448 (- 41)) = Some 2999"
  by simp

lemma parseFloat_abc: "parseFloat_string ''abc'' = NaN"
  by (simp add: number_eval)

lemma parseFloat_0: "parseFloat_string ''0'' = Dbl False 0 (- 1074)"
  by (simp add: number_eval)

lemma js_mul_NaN: "js_mul NaN y = NaN"
  by simp

text \<open>Leading white space is dropped, the no-break space included.\<close>

lemma parseFloat_after_no_break_space:
  "parseFloat_string (CHR 0xA0 # '' 5'') = Dbl False 5629499534213120 (- 50)"
  "num_value (Dbl False 5629499534213120 (- 50)) = Some 5"
  by (simp_all add: number_eval)

section \<open>The runs of the subscription handler\<close>

text \<open>
  Every run of the handler takes one of seven courses: the body cannot be destructured;
  the customer call is rejected; the price cannot be printed; the price or the
  subscription call is rejected; the three calls succeed and the client secret cannot be
  read; the three calls succeed and the response is sent. Each course fixes the response
  and the calls made.
\<close>

lemmas handler_defs =
  create_payment_intent_def create_payment_intent_try_def await_stripe_def log_def start_def
  destructure_def Get_def parseFloat_def Let_def

lemma create_payment_intent_cases
  [case_names no_body customer_failed no_price price_failed subscription_failed no_secret sent]:
  fixes m :: "('p, 'b) module_scope" and body :: jsval and p :: 'p
  defines "programName \<equiv> read body ''programName''"
      and "programPrice \<equiv> read body ''programPrice''"
  defines "c1 \<equiv> customers_create (customer_params body programName)"
      and "c2 \<equiv> prices_create
             (price_params programName (js_mul (parseFloat_printed programPrice) (number_of_nat 100)))"
  assumes no_body: "nullish body \<Longrightarrow>
        fst (create_payment_intent m body p) =
          error_response (TypeError_destructure body ''programName'' ''req.body'') \<Longrightarrow>
        calls (snd (create_payment_intent m body p)) = [] \<Longrightarrow> P"
    and customer_failed: "\<And>e. \<not> nullish body \<Longrightarrow>
        fst (create_payment_intent m body p) = error_response e \<Longrightarrow>
        calls (snd (create_payment_intent m body p)) = [(c1, Inl e)] \<Longrightarrow> P"
    and no_price: "\<And>customer. \<not> nullish body \<Longrightarrow> unprintable programPrice \<Longrightarrow>
        fst (create_payment_intent m body p) = error_response TypeError_primitive \<Longrightarrow>
        calls (snd (create_payment_intent m body p)) = [(c1, Inr customer)] \<Longrightarrow> P"
    and price_failed: "\<And>customer e. \<not> nullish body \<Longrightarrow> \<not> unprintable programPrice \<Longrightarrow>
        fst (create_payment_intent m body p) = error_response e \<Longrightarrow>
        calls (snd (create_payment_intent m body p)) = [(c1, Inr customer), (c2, Inl e)] \<Longrightarrow> P"
    and subscription_failed: "\<And>customer price e. \<not> nullish body \<Longrightarrow>
        \<not> unprintable programPrice \<Longrightarrow>
        fst (create_payment_intent m body p) = error_response e \<Longrightarrow>
        calls (snd (create_payment_intent m body p)) =
          [(c1, Inr customer), (c2, Inr price),
           (subscriptions_create (subscription_params customer price), Inl e)] \<Longrightarrow> P"
    and no_secret: "\<And>customer price subscription. \<not> nullish body \<Longrightarrow>
        \<not> unprintable programPrice \<Longrightarrow>
        nullish (property subscription ''latest_invoice'') \<or>
        nullish (read (property subscription ''latest_invoice'') ''payment_intent'') \<Longrightarrow>
        fst (create_payment_intent m body p) =
          error_response
            (if nullish (property subscription ''latest_invoice'')
             then TypeError_read (property subscription ''latest_invoice'') ''payment_intent''
             else TypeError_read (read (property subscription ''latest_invoice'') ''payment_intent'')
                    ''client_secret'') \<Longrightarrow>
        calls (snd (create_payment_intent m body p)) =
          [(c1, Inr customer), (c2, Inr price),
           (subscriptions_create (subscription_params customer price), Inr subscription)] \<Longrightarrow> P"
    and sent: "\<And>customer price subscription. \<not> nullish body \<Longrightarrow>
        \<not> unprintable programPrice \<Longrightarrow>
        \<not> nullish (property subscription ''latest_invoice'') \<Longrightarrow>
        \<not> nullish (read (property subscription ''latest_invoice'') ''payment_intent'') \<Longrightarrow>
        fst (create_payment_intent m body p) =
          Json 200 (JObj [(''subscriptionId'', property subscription ''id''),
                          (''clientSecret'',
                           read (read (property subscription ''latest_invoice'') ''payment_intent'')
                             ''client_secret'')]) \<Longrightarrow>
        calls (snd (create_payment_intent m body p)) =
          [(c1, Inr customer), (c2, Inr price),
           (subscriptions_create (subscription_params customer price), Inr subscription)] \<Longrightarrow> P"
  shows P
proof (cases "nullish body")
  case True
  then show P
    by (intro no_body) (simp_all add: handler_defs)
next
  case body: False
  obtain res1 p1 where s1: "stripe m c1 p = (res1, p1)"
    by (cases "stripe m c1 p")
  show P
  proof (cases res1)
    case (Inl e)
    with body s1 show P
      by (intro customer_failed [of e]) (simp_all add: handler_defs c1_def programName_def)
  next
    case c: (Inr customer)
    show P
    proof (cases "unprintable programPrice")
      case True
      with body s1 c show P
        by (intro no_price [of customer])
           (simp_all add: handler_defs c1_def programName_def programPrice_def)
    next
      case printed: False
      obtain res2 p2 where s2: "stripe m c2 p1 = (res2, p2)"
        by (cases "stripe m c2 p1")
      show P
      proof (cases res2)
        case (Inl e)
        with body s1 c printed s2 show P
          by (intro price_failed [of e customer])
             (simp_all add: handler_defs c1_def c2_def programName_def programPrice_def)
      next
        case pr: (Inr price)
        obtain res3 p3 where s3:
          "stripe m (subscriptions_create (subscription_params customer price)) p2 = (res3, p3)"
          by (cases "stripe m (subscriptions_create (subscription_params customer price)) p2")
        show P
        proof (cases res3)
          case (Inl e)
          with body s1 c printed s2 pr s3 show P
            by (intro subscription_failed [of e customer price])
               (simp_all add: handler_defs c1_def c2_def programName_def programPrice_def)
        next
          case su: (Inr subscription)
          show P
          proof (cases "nullish (property subscription ''latest_invoice'') \<or>
              nullish (read (property subscription ''latest_invoice'') ''payment_intent'')")
            case True
            with body s1 c printed s2 pr s3 su show P
              by (intro no_secret [of subscription customer price])
                 (auto simp add: handler_defs c1_def c2_def programName_def programPrice_def)
          next
            case False
            with body s1 c printed s2 pr s3 su show P
              by (intro sent [of subscription customer price])
                 (simp_all add: handler_defs c1_def c2_def programName_def programPrice_def)
          qed
        qed
      qed
    qed
  qed
qed

section \<open>Runs in the example environment\<close>

lemmas example_defs =
  handler_defs example_scope_def example_body_def customer_params_def price_params_def
  subscription_params_def property_def Object_prototype_def invalid_request_def
  error_response_def

lemma paid_run:
  "create_payment_intent (example_scope open_subscription)
     (example_body ''harley@example.com'' ''29.99'') 0 =
   (Json 200 (JObj [(''subscriptionId'', JStr ''sub_1''), (''clientSecret'', JStr ''pi_1_secret_9'')]),
    \<lparr>proc = 3,
     calls =
       [(customers_create (customer_params (example_body ''harley@example.com'' ''29.99'')
           (JStr ''strength'')), Inr [(''id'', JStr ''cus_1'')]),
        (prices_create (price_params (JStr ''strength'')
           (js_mul (parseFloat_string ''29.99'') (number_of_nat 100))),
         Inr [(''id'', JStr ''price_1'')]),
        (subscriptions_create
           (subscription_params [(''id'', JStr ''cus_1'')] [(''id'', JStr ''price_1'')]),
         Inr open_subscription)],
     console =
       [console_log [Val (JStr ''Received payment request:''),
                     Val (example_body ''harley@example.com'' ''29.99'')],
        console_log [Val (JStr ''Customer created:''), Val (JStr ''cus_1'')],
        console_log [Val (JStr ''Price created:''), Val (JStr ''price_1'')],
        console_log [Val (JStr ''Subscription created:''), Val (JStr ''sub_1'')]]\<rparr>)"
  by (simp add: example_defs cents_29_99 open_subscription_def)

lemma rejected_customer_run:
  "fst (create_payment_intent (example_scope open_subscription)
          (example_body ''harley'' ''29.99'') 0) =
     Json 500 (JObj [(''error'', JObj [(''message'', JStr ''Invalid email address''),
                                       (''type'', JStr ''StripeInvalidRequestError'')])])"
  "calls (snd (create_payment_intent (example_scope open_subscription)
                 (example_body ''harley'' ''29.99'') 0)) =
     [(customers_create (customer_params (example_body ''harley'' ''29.99'') (JStr ''strength'')),
       Inl (invalid_request ''Invalid email address''))]"
  by (simp_all add: example_defs)

lemma rejected_price_run:
  "fst (create_payment_intent (example_scope open_subscription)
          (example_body ''harley@example.com'' ''abc'') 0) =
     Json 500 (JObj [(''error'', JObj [(''message'', JStr ''Invalid integer''),
                                       (''type'', JStr ''StripeInvalidRequestError'')])])"
  "calls (snd (create_payment_intent (example_scope open_subscription)
                 (example_body ''harley@example.com'' ''abc'') 0)) =
     [(customers_create (customer_params (example_body ''harley@example.com'' ''abc'')
         (JStr ''strength'')), Inr [(''id'', JStr ''cus_1'')]),
      (prices_create (price_params (JStr ''strength'')
           (js_mul (parseFloat_string ''abc'') (number_of_nat 100))),
       Inl (invalid_request ''Invalid integer''))]"
  by (simp_all add: example_defs parseFloat_abc)

lemma free_run:
  "fst (create_payment_intent (example_scope free_subscription)
          (example_body ''harley@example.com'' ''0'') 0) =
     Json 500 (JObj [(''error'',
       JObj [(''message'', JStr (err_message (TypeError_read JNull ''client_secret''))),
             (''type'', JUndefined)])])"
  "calls (snd (create_payment_intent (example_scope free_subscription)
                 (example_body ''harley@example.com'' ''0'') 0)) =
     [(customers_create (customer_params (example_body ''harley@example.com'' ''0'')
         (JStr ''strength'')), Inr [(''id'', JStr ''cus_1'')]),
      (prices_create (price_params (JStr ''strength'')
           (js_mul (parseFloat_string ''0'') (number_of_nat 100))),
       Inr [(''id'', JStr ''price_1'')]),
      (subscriptions_create
         (subscription_params [(''id'', JStr ''cus_1'')] [(''id'', JStr ''price_1'')]),
       Inr free_subscription)]"
  by (simp_all add: example_defs parseFloat_0 hundred free_subscription_def TypeError_read_def
        round_double_def)

text \<open>A price that cannot be printed: the customer is created, the conversion throws,
  and no price call is made.\<close>

lemma unprintable_price_run:
  "fst (create_payment_intent (example_scope open_subscription)
          (JObj [(''programName'', JStr ''strength''),
                 (''programPrice'', JObj [(''toString'', JStr ''29.99'')]),
                 (''email'', JStr ''harley@example.com''), (''name'', JStr ''Harley'')]) 0) =
     Json 500 (JObj [(''error'',
       JObj [(''message'', JStr ''Cannot convert object to primitive value''),
             (''type'', JUndefined)])])"
  "map snd (calls (snd (create_payment_intent (example_scope open_subscription)
          (JObj [(''programName'', JStr ''strength''),
                 (''programPrice'', JObj [(''toString'', JStr ''29.99'')]),
                 (''email'', JStr ''harley@example.com''), (''name'', JStr ''Harley'')]) 0))) =
     [Inr [(''id'', JStr ''cus_1'')]]"
  by (simp_all add: example_defs TypeError_primitive_def)

section \<open>The subscription handler\<close>

text \<open>
  C1. When the request's \<^verbatim>\<open>programPrice\<close> is the string \<^verbatim>\<open>29.99\<close>, every price-creation
  call the handler makes carries a \<^verbatim>\<open>unit_amount\<close> that is a finite Number of value
  exactly 2999: the nearest double to 29.99 times 100 rounds to 2999.
\<close>

theorem unit_amount_29_99:
  assumes "read body ''programPrice'' = JStr ''29.99''"
      and "(prices_create a, res) \<in> set (calls (snd (create_payment_intent m body p)))"
  shows "\<exists>n. read a ''unit_amount'' = JNum n \<and> num_value n = Some 2999"
  using assms
  by (cases rule: create_payment_intent_cases [of body m p])
     (auto simp: price_params_def property_def cents_29_99)

theorem unit_amount_29_99_witness:
  "read (example_body ''harley@example.com'' ''29.99'') ''programPrice'' = JStr ''29.99'' \<and>
   (prices_create (price_params (JStr ''strength'')
           (js_mul (parseFloat_string ''29.99'') (number_of_nat 100))),
    Inr [(''id'', JStr ''price_1'')])
     \<in> set (calls (snd (create_payment_intent (example_scope open_subscription)
                           (example_body ''harley@example.com'' ''29.99'') 0))) \<and>
   (\<exists>n. read (price_params (JStr ''strength'')
           (js_mul (parseFloat_string ''29.99'') (number_of_nat 100))) ''unit_amount'' = JNum n
        \<and> num_value n = Some 2999)"
proof -
  have price: "read (example_body ''harley@example.com'' ''29.99'') ''programPrice'' = JStr ''29.99''"
    by (simp add: example_body_def property_def)
  have made: "(prices_create (price_params (JStr ''strength'')
           (js_mul (parseFloat_string ''29.99'') (number_of_nat 100))),
      Inr [(''id'', JStr ''price_1'')])
     \<in> set (calls (snd (create_payment_intent (example_scope open_subscription)
                           (example_body ''harley@example.com'' ''29.99'') 0)))"
    by (simp add: paid_run)
  from unit_amount_29_99 [OF price made] price made show ?thesis
    by blast
qed

text \<open>
  C2. When the customer-creation call is rejected, the handler answers HTTP 500 with the
  error's message and type, and the rejected call is the only processor call of the
  request: no price and no subscription is created.
\<close>

theorem customer_rejected:
  assumes "(customers_create a, Inl e) \<in> set (calls (snd (create_payment_intent m body p)))"
  shows "fst (create_payment_intent m body p) =
           Json 500 (JObj [(''error'', JObj [(''message'', JStr (err_message e)),
                                             (''type'', err_type e)])])
       \<and> calls (snd (create_payment_intent m body p)) = [(customers_create a, Inl e)]"
  using assms
  by (cases rule: create_payment_intent_cases [of body m p]) (auto simp: error_response_def)

theorem customer_rejected_witness:
  "fst (create_payment_intent (example_scope open_subscription)
          (example_body ''harley'' ''29.99'') 0) =
     Json 500 (JObj [(''error'', JObj [(''message'', JStr ''Invalid email address''),
                                       (''type'', JStr ''StripeInvalidRequestError'')])])
   \<and> calls (snd (create_payment_intent (example_scope open_subscription)
                 (example_body ''harley'' ''29.99'') 0)) =
     [(customers_create (customer_params (example_body ''harley'' ''29.99'') (JStr ''strength'')),
       Inl (invalid_request ''Invalid email address''))]"
proof -
  have "(customers_create (customer_params (example_body ''harley'' ''29.99'') (JStr ''strength'')),
         Inl (invalid_request ''Invalid email address''))
     \<in> set (calls (snd (create_payment_intent (example_scope open_subscription)
                           (example_body ''harley'' ''29.99'') 0)))"
    by (simp add: rejected_customer_run)
  from customer_rejected [OF this] show ?thesis
    by (simp add: invalid_request_def)
qed

text \<open>
  C3. When the customer, the price and the subscription call of a request all succeed,
  these three are the processor calls of the request, in this order; the price is
  created for a product named by the request's \<^verbatim>\<open>programName\<close>, and the subscription
  binds the id of the customer returned to the id of the price returned.
\<close>

theorem three_calls_in_order:
  assumes "(customers_create a1, Inr customer)
             \<in> set (calls (snd (create_payment_intent m body p)))"
      and "(prices_create a2, Inr price)
             \<in> set (calls (snd (create_payment_intent m body p)))"
      and "(subscriptions_create a3, Inr subscription)
             \<in> set (calls (snd (create_payment_intent m body p)))"
  shows "calls (snd (create_payment_intent m body p)) =
           [(customers_create a1, Inr customer), (prices_create a2, Inr price),
            (subscriptions_create a3, Inr subscription)]
       \<and> read (read a2 ''product_data'') ''name'' = read body ''programName''
       \<and> read a3 ''customer'' = property customer ''id''
       \<and> read a3 ''items'' = JArr [JObj [(''price'', property price ''id'')]]"
  using assms
  by (cases rule: create_payment_intent_cases [of body m p])
     (auto simp: price_params_def subscription_params_def property_def)

theorem three_calls_in_order_witness:
  "calls (snd (create_payment_intent (example_scope open_subscription)
                 (example_body ''harley@example.com'' ''29.99'') 0)) =
     [(customers_create (customer_params (example_body ''harley@example.com'' ''29.99'')
         (JStr ''strength'')), Inr [(''id'', JStr ''cus_1'')]),
      (prices_create (price_params (JStr ''strength'')
           (js_mul (parseFloat_string ''29.99'') (number_of_nat 100))),
       Inr [(''id'', JStr ''price_1'')]),
      (subscriptions_create
         (subscription_params [(''id'', JStr ''cus_1'')] [(''id'', JStr ''price_1'')]),
       Inr open_subscription)]
   \<and> read (read (price_params (JStr ''strength'')
           (js_mul (parseFloat_string ''29.99'') (number_of_nat 100))) ''product_data'') ''name'' =
       JStr ''strength''
   \<and> read (subscription_params [(''id'', JStr ''cus_1'')] [(''id'', JStr ''price_1'')]) ''customer'' =
       JStr ''cus_1''
   \<and> read (subscription_params [(''id'', JStr ''cus_1'')] [(''id'', JStr ''price_1'')]) ''items'' =
       JArr [JObj [(''price'', JStr ''price_1'')]]"
proof -
  let ?run = "create_payment_intent (example_scope open_subscription)
                (example_body ''harley@example.com'' ''29.99'') 0"
  have c1: "(customers_create (customer_params (example_body ''harley@example.com'' ''29.99'')
         (JStr ''strength'')), Inr [(''id'', JStr ''cus_1'')]) \<in> set (calls (snd ?run))"
    by (simp add: paid_run)
  have c2: "(prices_create (price_params (JStr ''strength'')
           (js_mul (parseFloat_string ''29.99'') (number_of_nat 100))),
       Inr [(''id'', JStr ''price_1'')]) \<in> set (calls (snd ?run))"
    by (simp add: paid_run)
  have c3: "(subscriptions_create
         (subscription_params [(''id'', JStr ''cus_1'')] [(''id'', JStr ''price_1'')]),
       Inr open_subscription) \<in> set (calls (snd ?run))"
    by (simp add: paid_run)
  from three_calls_in_order [OF c1 c2 c3] show ?thesis
    by (simp add: example_body_def property_def)
qed

text \<open>
  C4. When the subscription call succeeds (it is made only after the customer and the
  price call have succeeded) and the subscription returned has a latest invoice with a
  payment intent, neither of them undefined or null, the handler answers HTTP 200 with
  exactly \<^verbatim>\<open>subscriptionId\<close>, the id of the subscription returned, and
  \<^verbatim>\<open>clientSecret\<close>, the \<^verbatim>\<open>client_secret\<close> of that payment intent.
\<close>

theorem subscription_response:
  assumes "(subscriptions_create a, Inr subscription)
             \<in> set (calls (snd (create_payment_intent m body p)))"
      and "\<not> nullish (property subscription ''latest_invoice'')"
      and "\<not> nullish (read (property subscription ''latest_invoice'') ''payment_intent'')"
  shows "fst (create_payment_intent m body p) =
           Json 200 (JObj [(''subscriptionId'', property subscription ''id''),
                           (''clientSecret'',
                            read (read (property subscription ''latest_invoice'') ''payment_intent'')
                              ''client_secret'')])"
  using assms
  by (cases rule: create_payment_intent_cases [of body m p]) auto

theorem subscription_response_witness:
  "fst (create_payment_intent (example_scope open_subscription)
          (example_body ''harley@example.com'' ''29.99'') 0) =
     Json 200 (JObj [(''subscriptionId'', JStr ''sub_1''),
                     (''clientSecret'', JStr ''pi_1_secret_9'')])"
proof -
  have made: "(subscriptions_create
         (subscription_params [(''id'', JStr ''cus_1'')] [(''id'', JStr ''price_1'')]),
       Inr open_subscription)
     \<in> set (calls (snd (create_payment_intent (example_scope open_subscription)
                           (example_body ''harley@example.com'' ''29.99'') 0)))"
    by (simp add: paid_run)
  have invoice: "\<not> nullish (property open_subscription ''latest_invoice'')"
    by (simp add: open_subscription_def property_def)
  have intent: "\<not> nullish (read (property open_subscription ''latest_invoice'') ''payment_intent'')"
    by (simp add: open_subscription_def property_def)
  from subscription_response [OF made invoice intent] show ?thesis
    by (simp add: open_subscription_def property_def)
qed

text \<open>
  The claim without the condition on the invoice fails: for a price of 0 the processor
  creates customer, price and subscription, the first invoice has nothing to pay and its
  payment intent is null, and the handler answers HTTP 500.
\<close>

theorem subscription_response_counterexample:
  "calls (snd (create_payment_intent (example_scope free_subscription)
                 (example_body ''harley@example.com'' ''0'') 0)) =
     [(customers_create (customer_params (example_body ''harley@example.com'' ''0'')
         (JStr ''strength'')), Inr [(''id'', JStr ''cus_1'')]),
      (prices_create (price_params (JStr ''strength'')
           (js_mul (parseFloat_string ''0'') (number_of_nat 100))),
       Inr [(''id'', JStr ''price_1'')]),
      (subscriptions_create
         (subscription_params [(''id'', JStr ''cus_1'')] [(''id'', JStr ''price_1'')]),
       Inr free_subscription)]
   \<and> fst (create_payment_intent (example_scope free_subscription)
          (example_body ''harley@example.com'' ''0'') 0) =
     Json 500 (JObj [(''error'',
       JObj [(''message'', JStr (err_message (TypeError_read JNull ''client_secret''))),
             (''type'', JUndefined)])])"
  by (simp add: free_run)

text \<open>
  C5. When a processor call of the request is rejected, whichever of the three it is, the
  handler answers HTTP 500 with \<^verbatim>\<open>{error: {message, type}}\<close> read from the error raised;
  the rejected call is the last processor call of the request, and every call before it
  succeeded: nothing is called to undo the records already created.
\<close>

theorem any_call_rejected:
  assumes "(c, Inl e) \<in> set (calls (snd (create_payment_intent m body p)))"
  shows "fst (create_payment_intent m body p) =
           Json 500 (JObj [(''error'', JObj [(''message'', JStr (err_message e)),
                                             (''type'', err_type e)])])
       \<and> (\<exists>before. calls (snd (create_payment_intent m body p)) = before @ [(c, Inl e)]
            \<and> (\<forall>x \<in> set before. \<exists>c' v. x = (c', Inr v)))"
  using assms
  by (cases rule: create_payment_intent_cases [of body m p]) (auto simp: error_response_def)

theorem any_call_rejected_witness:
  "fst (create_payment_intent (example_scope open_subscription)
          (example_body ''harley@example.com'' ''abc'') 0) =
     Json 500 (JObj [(''error'', JObj [(''message'', JStr ''Invalid integer''),
                                       (''type'', JStr ''StripeInvalidRequestError'')])])
   \<and> (\<exists>before. calls (snd (create_payment_intent (example_scope open_subscription)
                             (example_body ''harley@example.com'' ''abc'') 0)) =
         before @ [(prices_create (price_params (JStr ''strength'')
           (js_mul (parseFloat_string ''abc'') (number_of_nat 100))),
                    Inl (invalid_request ''Invalid integer''))])"
proof -
  have "(prices_create (price_params (JStr ''strength'')
           (js_mul (parseFloat_string ''abc'') (number_of_nat 100))),
         Inl (invalid_request ''Invalid integer''))
     \<in> set (calls (snd (create_payment_intent (example_scope open_subscription)
                           (example_body ''harley@example.com'' ''abc'') 0)))"
    by (simp add: rejected_price_run)
  from any_call_rejected [OF this] show ?thesis
    by (auto simp: invalid_request_def)
qed

text \<open>
  C8. When \<^verbatim>\<open>programPrice\<close> is a string that \<^verbatim>\<open>parseFloat\<close> cannot convert (the result
  is NaN) and the customer call has succeeded, the handler raises nothing of its own: its
  second processor call is the price creation, with \<^verbatim>\<open>unit_amount\<close> NaN, the product
  of that conversion and 100.
\<close>

theorem non_numeric_price_forwarded:
  assumes "read body ''programPrice'' = JStr s"
      and "parseFloat_string s = NaN"
      and "(customers_create a1, Inr customer)
             \<in> set (calls (snd (create_payment_intent m body p)))"
  shows "\<exists>a res. 1 < length (calls (snd (create_payment_intent m body p)))
           \<and> calls (snd (create_payment_intent m body p)) ! 1 = (prices_create a, res)
           \<and> read a ''unit_amount'' = JNum (js_mul (parseFloat_string s) (number_of_nat 100))
           \<and> read a ''unit_amount'' = JNum NaN"
  using assms
  by (cases rule: create_payment_intent_cases [of body m p])
     (auto simp: price_params_def property_def)

theorem non_numeric_price_forwarded_witness:
  "parseFloat_string ''abc'' = NaN \<and>
   (\<exists>a res. calls (snd (create_payment_intent (example_scope open_subscription)
                          (example_body ''harley@example.com'' ''abc'') 0)) ! 1 =
              (prices_create a, res)
           \<and> read a ''unit_amount'' = JNum NaN)"
proof -
  have price: "read (example_body ''harley@example.com'' ''abc'') ''programPrice'' = JStr ''abc''"
    by (simp add: example_body_def property_def)
  have made: "(customers_create (customer_params (example_body ''harley@example.com'' ''abc'')
         (JStr ''strength'')), Inr [(''id'', JStr ''cus_1'')])
     \<in> set (calls (snd (create_payment_intent (example_scope open_subscription)
                           (example_body ''harley@example.com'' ''abc'') 0)))"
    by (simp add: rejected_price_run)
  from non_numeric_price_forwarded [OF price parseFloat_abc made] parseFloat_abc
  show ?thesis
    by blast
qed

text \<open>
  C10. When the subscription call succeeds and the subscription returned has no latest
  invoice, or the invoice no payment intent (undefined or null), the read of the client
  secret throws inside the \<^verbatim>\<open>try\<close> block and the handler answers HTTP 500 with
  \<^verbatim>\<open>{error: {message, type}}\<close>: the message of the TypeError, and no type, since a
  TypeError has none.
\<close>

theorem missing_payment_intent:
  assumes "(subscriptions_create a, Inr subscription)
             \<in> set (calls (snd (create_payment_intent m body p)))"
      and "nullish (property subscription ''latest_invoice'') \<or>
           nullish (read (property subscription ''latest_invoice'') ''payment_intent'')"
  shows "\<exists>message. fst (create_payment_intent m body p) =
           Json 500 (JObj [(''error'', JObj [(''message'', JStr message),
                                             (''type'', JUndefined)])])"
  using assms
  by (cases rule: create_payment_intent_cases [of body m p])
     (auto simp: error_response_def TypeError_read_def)

theorem missing_payment_intent_witness:
  "nullish (read (property free_subscription ''latest_invoice'') ''payment_intent'') \<and>
   (\<exists>message. fst (create_payment_intent (example_scope free_subscription)
                      (example_body ''harley@example.com'' ''0'') 0) =
      Json 500 (JObj [(''error'', JObj [(''message'', JStr message), (''type'', JUndefined)])]))"
proof -
  have made: "(subscriptions_create
         (subscription_params [(''id'', JStr ''cus_1'')] [(''id'', JStr ''price_1'')]),
       Inr free_subscription)
     \<in> set (calls (snd (create_payment_intent (example_scope free_subscription)
                           (example_body ''harley@example.com'' ''0'') 0)))"
    by (simp add: free_run)
  have missing: "nullish (read (property free_subscription ''latest_invoice'') ''payment_intent'')"
    by (simp add: free_subscription_def property_def)
  from missing_payment_intent [OF made disjI2 [OF missing]] missing show ?thesis
    by blast
qed

section \<open>The webhook handler\<close>

lemma dispatch_writes_one_line:
  "\<exists>line. dispatch event r = r\<lparr>console := console r @ [console_log line]\<rparr>"
  by (auto simp: dispatch_def log_def)

lemma dispatch_last_line: "\<exists>line. last (console (dispatch event r)) = console_log line"
  by (simp add: dispatch_def log_def)

text \<open>
  C6. When the signature check throws, the handler answers HTTP 400 with the text
  \<^verbatim>\<open>Webhook Error: \<close> followed by the error's message, writes that one line to the error
  console and does nothing else: no processor call, and the state it leaves is not one
  that the dispatch on the event's type could have produced.
\<close>

theorem webhook_signature_refused:
  assumes "constructEvent m (payload req) (header req ''stripe-signature'')
             (STRIPE_WEBHOOK_SECRET m) = Inl err"
  shows "webhook m req p =
           (Send 400 (''Webhook Error: '' @ err_message err),
            \<lparr>proc = p, calls = [],
             console = [console_error [Val (JStr ''Webhook Error:''),
                                       Val (JStr (err_message err))]]\<rparr>)
       \<and> (\<forall>event r. snd (webhook m req p) \<noteq> dispatch event r)"
proof -
  have run: "webhook m req p =
           (Send 400 (''Webhook Error: '' @ err_message err),
            \<lparr>proc = p, calls = [],
             console = [console_error [Val (JStr ''Webhook Error:''),
                                       Val (JStr (err_message err))]]\<rparr>)"
    using assms by (simp add: webhook_def log_def start_def)
  then have written: "last (console (snd (webhook m req p))) =
      console_error [Val (JStr ''Webhook Error:''), Val (JStr (err_message err))]"
    by simp
  have "snd (webhook m req p) \<noteq> dispatch event r" for event and r :: "'a run"
  proof
    assume same: "snd (webhook m req p) = dispatch event r"
    obtain line where "last (console (dispatch event r)) = console_log line"
      using dispatch_last_line by blast
    with written show False
      unfolding same by simp
  qed
  with run show ?thesis
    by blast
qed

theorem webhook_signature_refused_witness:
  "webhook (example_scope open_subscription)
     \<lparr>headers = [(''content-type'', ''application/json''),
                 (''stripe-signature'', ''t=1,v1=00000000'')],
      payload = Parsed signed_value\<rparr> 0 =
   (Send 400 ''Webhook Error: Webhook payload must be provided as a string or a Buffer instance.'',
    \<lparr>proc = 0, calls = [],
     console = [console_error [Val (JStr ''Webhook Error:''),
       Val (JStr ''Webhook payload must be provided as a string or a Buffer instance.'')]]\<rparr>)"
proof -
  let ?m = "example_scope open_subscription"
  let ?req = "\<lparr>headers = [(''content-type'', ''application/json''),
                           (''stripe-signature'', ''t=1,v1=00000000'')],
                payload = Parsed signed_value\<rparr>"
  have refused: "constructEvent ?m (payload ?req) (header ?req ''stripe-signature'')
      (STRIPE_WEBHOOK_SECRET ?m) =
    Inl (verification_error ''Webhook payload must be provided as a string or a Buffer instance.'')"
    by (simp add: example_scope_def header_def)
  from webhook_signature_refused [OF refused, of 0] show ?thesis
    by (simp add: verification_error_def)
qed

section \<open>The webhook route\<close>

text \<open>
  Handed an event by the signature check, the handler answers HTTP 200 with
  \<^verbatim>\<open>{received: true}\<close> whatever the event's type, and writes the one line the dispatch
  chooses.
\<close>

lemma webhook_on_event:
  assumes "constructEvent m (payload req) (header req ''stripe-signature'')
             (STRIPE_WEBHOOK_SECRET m) = Inr event"
  shows "webhook m req p = (Json 200 (JObj [(''received'', JBool True)]), dispatch event (start p))"
  using assms by (simp add: webhook_def)

text \<open>
  The raw parser of the route never stores the bytes: when the JSON parser has parsed the
  body the raw parser finds it marked, and when the JSON parser has left the request
  alone the raw parser's own test fails as well.
\<close>

lemma raw_parser_skipped:
  "express_raw m req True body = body"
  "express_json m req = None \<Longrightarrow> express_raw m req False body = body"
  by (simp_all add: express_raw_def)

lemma webhook_route_payload:
  assumes "parsed \<or> express_json m req = None"
  shows "webhook_route m req parsed (Parsed v) p =
           (fst (webhook m \<lparr>headers = http_headers req, payload = Parsed v\<rparr> p),
            (snd (webhook m \<lparr>headers = http_headers req, payload = Parsed v\<rparr> p))
              \<lparr>console := logged req #
                 console (snd (webhook m \<lparr>headers = http_headers req, payload = Parsed v\<rparr> p))\<rparr>)"
  using assms by (auto simp: webhook_route_def express_raw_def split: prod.splits)

text \<open>
  So the signature check is always handed a parsed value. The processor's library
  verifies the bytes it signed and refuses everything else; with such a check no request
  to the route is answered with \<^verbatim>\<open>{received: true}\<close>.
\<close>

lemma webhook_route_never_verifies:
  assumes raw_only: "\<And>v sig secret. \<exists>err. constructEvent m (Parsed v) sig secret = Inl err"
  shows "fst (post_webhook m req p) \<noteq> Json 200 (JObj [(''received'', JBool True)])"
proof -
  have handler: "\<exists>text. fst (webhook m \<lparr>headers = hs, payload = Parsed v\<rparr> p) = Send 400 text"
    for hs v
  proof -
    obtain err where "constructEvent m (Parsed v)
        (header \<lparr>headers = hs, payload = Parsed v\<rparr> ''stripe-signature'')
        (STRIPE_WEBHOOK_SECRET m) = Inl err"
      using raw_only by blast
    then show ?thesis
      by (simp add: webhook_def)
  qed
  show ?thesis
  proof (cases "express_json m req")
    case None
    with handler [of "http_headers req" "JObj []"] show ?thesis
      by (auto simp: post_webhook_def webhook_route_payload)
  next
    case (Some outcome)
    show ?thesis
    proof (cases outcome)
      case (Inl err)
      with Some show ?thesis
        by (simp add: post_webhook_def error_middleware_def)
    next
      case (Inr v)
      with Some handler [of "http_headers req" v] show ?thesis
        by (auto simp: post_webhook_def webhook_route_payload)
    qed
  qed
qed

text \<open>
  C7. The claim fails on the program, by the order of the middleware. The request below
  carries an event as the processor sends it, with the signature the processor computed
  over the bytes of its body: the signature check verifies those bytes, and the handler,
  handed them, answers HTTP 200 with \<^verbatim>\<open>{received: true}\<close>. Sent to the route, the request
  is parsed by \<^verbatim>\<open>express.json()\<close> first, the raw parser is skipped, the signature check is
  handed the parsed object and throws, and the answer is HTTP 400.
\<close>

theorem signed_webhook_refused:
  "constructEvent (example_scope open_subscription) (Raw (http_body signed_request))
     (JStr signed_header) (STRIPE_WEBHOOK_SECRET (example_scope open_subscription)) =
     Inr signed_event
   \<and> fst (webhook (example_scope open_subscription)
            \<lparr>headers = http_headers signed_request,
             payload = Raw (http_body signed_request)\<rparr> 0) =
     Json 200 (JObj [(''received'', JBool True)])
   \<and> post_webhook (example_scope open_subscription) signed_request 0 =
     (Send 400 ''Webhook Error: Webhook payload must be provided as a string or a Buffer instance.'',
      \<lparr>proc = 0, calls = [],
       console =
         [console_log [Val (JStr ''2024-05-01T12:00:00.000Z - POST /webhook'')],
          console_error [Val (JStr ''Webhook Error:''),
            Val (JStr ''Webhook payload must be provided as a string or a Buffer instance.'')]]\<rparr>)"
  by (simp add: example_scope_def signed_request_def example_express_json_def header_def
        signed_header_def webhook_def post_webhook_def webhook_route_def express_raw_def
        logged_def log_def start_def verification_error_def)

section \<open>The price lookup helper is dead code\<close>

lemma Object_prototype_not_string: "Object_prototype k \<noteq> JStr s"
  by (simp add: Object_prototype_def)

lemma binding_unread:
  "stripe (m\<lparr>getPriceIdForProgram_binding := f\<rparr>) = stripe m"
  "constructEvent (m\<lparr>getPriceIdForProgram_binding := f\<rparr>) = constructEvent m"
  "STRIPE_WEBHOOK_SECRET (m\<lparr>getPriceIdForProgram_binding := f\<rparr>) = STRIPE_WEBHOOK_SECRET m"
  "dirname (m\<lparr>getPriceIdForProgram_binding := f\<rparr>) = dirname m"
  "express_json (m\<lparr>getPriceIdForProgram_binding := f\<rparr>) = express_json m"
  by simp_all

text \<open>
  C9. \<^verbatim>\<open>getPriceIdForProgram\<close> returns the placeholder price identifier for each of
  \<^verbatim>\<open>strength\<close>, \<^verbatim>\<open>complete\<close> and \<^verbatim>\<open>group\<close>, and a string for no other name. No
  route calls it: whatever function the name is bound to in the module's scope, each of
  the four routes sends the same response and has the same effects, the webhook route
  with the middleware in front of it included.
\<close>

theorem price_lookup_unused:
  "getPriceIdForProgram ''strength'' = JStr ''price_id_for_strength''
 \<and> getPriceIdForProgram ''complete'' = JStr ''price_id_for_complete''
 \<and> getPriceIdForProgram ''group'' = JStr ''price_id_for_group''
 \<and> (getPriceIdForProgram name = JStr s) =
     (name = ''strength'' \<and> s = ''price_id_for_strength''
      \<or> name = ''complete'' \<and> s = ''price_id_for_complete''
      \<or> name = ''group'' \<and> s = ''price_id_for_group'')
 \<and> get_root (m\<lparr>getPriceIdForProgram_binding := f\<rparr>) = get_root m
 \<and> get_page (m\<lparr>getPriceIdForProgram_binding := f\<rparr>) page = get_page m page
 \<and> create_payment_intent (m\<lparr>getPriceIdForProgram_binding := f\<rparr>) body p =
     create_payment_intent m body p
 \<and> webhook (m\<lparr>getPriceIdForProgram_binding := f\<rparr>) req p = webhook m req p
 \<and> post_webhook (m'\<lparr>getPriceIdForProgram_binding := f'\<rparr>) req' p' = post_webhook m' req' p'"
proof -
  have table: "(getPriceIdForProgram name = JStr s) =
     (name = ''strength'' \<and> s = ''price_id_for_strength''
      \<or> name = ''complete'' \<and> s = ''price_id_for_complete''
      \<or> name = ''group'' \<and> s = ''price_id_for_group'')"
    using Object_prototype_not_string [of name s]
    by (auto simp: getPriceIdForProgram_def priceIds_def property_def)
  have known: "getPriceIdForProgram ''strength'' = JStr ''price_id_for_strength''"
    "getPriceIdForProgram ''complete'' = JStr ''price_id_for_complete''"
    "getPriceIdForProgram ''group'' = JStr ''price_id_for_group''"
    by (simp_all add: getPriceIdForProgram_def priceIds_def property_def)
  have routes: "get_root (m\<lparr>getPriceIdForProgram_binding := f\<rparr>) = get_root m"
    "get_page (m\<lparr>getPriceIdForProgram_binding := f\<rparr>) page = get_page m page"
    "create_payment_intent (m\<lparr>getPriceIdForProgram_binding := f\<rparr>) body p =
       create_payment_intent m body p"
    "webhook (m\<lparr>getPriceIdForProgram_binding := f\<rparr>) req p = webhook m req p"
    unfolding get_root_def get_page_def create_payment_intent_def
      create_payment_intent_try_def webhook_def binding_unread
    by (rule refl)+
  have route: "post_webhook (m'\<lparr>getPriceIdForProgram_binding := f'\<rparr>) req' p' =
      post_webhook m' req' p'"
    unfolding post_webhook_def webhook_route_def express_raw_def webhook_def binding_unread
    by (rule refl)
  from table known routes route show ?thesis
    by blast
qed

end
